theory Spec2Isabelle
  imports Complex_Main "HOL-Library.Word"
begin

section \<open>Values of the host language\<close>

text \<open>
  A JavaScript string is a sequence of UTF-16 code units and \<open>.length\<close> counts them;
  a Buffer is a sequence of bytes. Timestamps are the integral millisecond counts that
  \<open>Date.now()\<close> returns.
\<close>

type_synonym js_string = "16 word list"
type_synonym buffer = "8 word list"

definition str :: "string \<Rightarrow> js_string" where
  \<comment> \<open>an ASCII literal as a JavaScript string\<close>
  "str s = map of_char s"

definition msPerDay :: int where
  "msPerDay = 24 * 60 * 60 * 1000"

text \<open>
  \<open>crypto.createHash("sha256").update(s).digest("hex")\<close> is a function of the platform,
  not of this repository: every operation that hashes takes it as the parameter
  \<open>sha256hex\<close>. The shape a real digest has is the predicate \<open>isSha256Hex\<close>.
\<close>

definition isLowerHexDigit :: "16 word \<Rightarrow> bool" where
  "isLowerHexDigit c = ((0x30 \<le> c \<and> c \<le> 0x39) \<or> (0x61 \<le> c \<and> c \<le> 0x66))"

definition isHexDigit :: "16 word \<Rightarrow> bool" where
  "isHexDigit c = (isLowerHexDigit c \<or> (0x41 \<le> c \<and> c \<le> 0x46))"

definition isSha256Hex :: "js_string \<Rightarrow> bool" where
  "isSha256Hex s = (length s = 64 \<and> list_all isLowerHexDigit s)"

section \<open>app.js: validation and the TTL cutoff\<close>

text \<open>
  \<open>validateType\<close> (app.js 52-61). The route parameter is always a string, so the
  \<open>typeof\<close> test never fires; \<open>!type\<close> is the empty string. A thrown \<open>Error\<close> is the
  left summand, carrying its message.
\<close>

definition wordChar :: "16 word \<Rightarrow> bool" where
  \<comment> \<open>the class \<open>[a-zA-Z0-9_]\<close> of the regular expression\<close>
  "wordChar c = ((0x61 \<le> c \<and> c \<le> 0x7A) \<or> (0x41 \<le> c \<and> c \<le> 0x5A)
     \<or> (0x30 \<le> c \<and> c \<le> 0x39) \<or> c = 0x5F)"

definition validateType :: "js_string \<Rightarrow> string + js_string" where
  "validateType t =
     (if t = [] \<or> length t = 0 \<or> length t > 20
      then Inl ''Type must be a string between 1 and 20 characters''
      else if \<not> (t \<noteq> [] \<and> list_all wordChar t)
      then Inl ''Type must contain only letters, numbers, and underscores''
      else Inr t)"

text \<open>
  \<open>getTTLTimestamp\<close> (app.js 63-68) moves a \<open>Date\<close> back by 25 calendar days of the
  host's local time: \<open>setDate\<close> reads the local time \<open>t + LocalTZA(t, true)\<close>, subtracts
  25 days from its day number and converts back with \<open>LocalTZA(_, false)\<close>. The time
  zone adjustment belongs to the host, so it is the parameter \<open>tza\<close>.
\<close>

type_synonym local_tza = "int \<Rightarrow> bool \<Rightarrow> int"

definition getTTLTimestamp :: "local_tza \<Rightarrow> int \<Rightarrow> int" where
  "getTTLTimestamp tza now =
     (let t = now + tza now True;
          newDate = t - 25 * msPerDay
      in newDate - tza newDate False)"

definition utc :: local_tza where
  \<comment> \<open>a host whose local time is UTC\<close>
  "utc t isUTC = 0"

definition europe_london_2024 :: local_tza where
  \<comment> \<open>British Summer Time (one hour ahead) until 2024-10-27T01:00:00Z, GMT after it\<close>
  "europe_london_2024 t isUTC =
     (if isUTC then (if t < 1729990800000 then 3600000 else 0)
      else (if t < 1729990800000 + 3600000 then 3600000 else 0))"

section \<open>app.js: the objects table\<close>

text \<open>
  The schema of app.js 37-49: the primary key is \<open>id\<close>, filled by its default
  \<open>lower(hex(randomblob(16)))\<close>; \<open>objectId\<close> carries an index only, no uniqueness.
  The table is the list of its rows in insertion order.
\<close>

record row =
  id_pk :: js_string
  objectId :: js_string
  userId :: js_string
  type :: js_string
  data :: buffer
  created_at :: int

type_synonym objects = "row list"

definition insert_or_replace :: "row \<Rightarrow> objects \<Rightarrow> objects" where
  \<comment> \<open>\<open>INSERT OR REPLACE\<close>: rows that collide on the primary key are deleted first\<close>
  "insert_or_replace r tbl = filter (\<lambda>x. id_pk x \<noteq> id_pk r) tbl @ [r]"

definition ensureSha256 :: "(js_string \<Rightarrow> js_string) \<Rightarrow> js_string \<Rightarrow> js_string" where
  \<comment> \<open>app.js 127-130 and 169-172, under the comment "Ensure userId is a SHA256 hash"\<close>
  "ensureSha256 sha256hex uid =
     (if length uid \<noteq> 64 then sha256hex uid else uid)"

definition cleanupExpiredItems :: "local_tza \<Rightarrow> int \<Rightarrow> objects \<Rightarrow> nat \<times> objects" where
  \<comment> \<open>app.js 71-76; the first component is \<open>result.changes\<close>\<close>
  "cleanupExpiredItems tza now tbl =
     (let ttlTimestamp = getTTLTimestamp tza now
      in (length (filter (\<lambda>r. created_at r < ttlTimestamp) tbl),
          filter (\<lambda>r. \<not> created_at r < ttlTimestamp) tbl))"

subsection \<open>POST /save/:type/:userId/:objectId\<close>

record save_body =
  sv_type :: js_string
  sv_userId :: js_string
  sv_objectId :: js_string
  sv_size :: nat
  sv_expiresAt :: int

datatype save_response = Status400 string | Status201 save_body

text \<open>
  \<open>body\<close> is \<open>req.body\<close>: the Buffer the raw body parser produced, or \<open>None\<close> for a falsy
  value. \<open>rid\<close> is the value \<open>randomblob\<close> gives the new row's \<open>id\<close>, \<open>now\<close> is
  \<open>Date.now()\<close>. The pair is the response and the table afterwards.
\<close>

definition save ::
  "(js_string \<Rightarrow> js_string) \<Rightarrow> js_string \<Rightarrow> int \<Rightarrow> js_string \<Rightarrow> js_string \<Rightarrow> js_string \<Rightarrow>
   buffer option \<Rightarrow> objects \<Rightarrow> save_response \<times> objects" where
  "save sha256hex rid now type0 userId0 objectId0 body tbl =
     (case body of
        None \<Rightarrow> (Status400 ''No data provided'', tbl)
      | Some dat \<Rightarrow>
          if length dat = 0 then (Status400 ''No data provided'', tbl)
          else (case validateType type0 of
                  Inl message \<Rightarrow> (Status400 message, tbl)
                | Inr ty \<Rightarrow>
                    let uid = ensureSha256 sha256hex userId0
                    in (Status201 \<lparr>sv_type = ty, sv_userId = uid, sv_objectId = objectId0,
                          sv_size = length dat, sv_expiresAt = now + 25 * 24 * 60 * 60 * 1000\<rparr>,
                        insert_or_replace
                          \<lparr>id_pk = rid, objectId = objectId0, userId = uid, type = ty,
                           data = dat, created_at = now\<rparr> tbl)))"

subsection \<open>GET /object/:objectId\<close>

datatype object_response = Status404 | Status200 buffer

definition getObject :: "local_tza \<Rightarrow> int \<Rightarrow> js_string \<Rightarrow> objects \<Rightarrow> object_response" where
  \<comment> \<open>app.js 225-253; \<open>stmt.get\<close> is the first row of the selection\<close>
  "getObject tza now oid tbl =
     (let ttlTimestamp = getTTLTimestamp tza now
      in case find (\<lambda>r. objectId r = oid \<and> created_at r \<ge> ttlTimestamp) tbl of
           None \<Rightarrow> Status404
         | Some obj \<Rightarrow> Status200 (data obj))"

section \<open>Page numbers\<close>

text \<open>
  \<open>parseInt(string, radix)\<close> as ECMAScript defines it: leading white space is dropped,
  a sign is read, a radix of 0 (the argument left out) means 10 unless the rest begins
  with \<open>0x\<close> or \<open>0X\<close>, and the longest prefix of digits of the radix is the number.
  The mathematical integer is then rounded to a double.
\<close>

text \<open>
  The numbers a page computation meets are integral doubles, the infinities and \<open>NaN\<close>;
  \<open>-0\<close> is \<open>0\<close> here, both being falsy and equal. \<open>roundToDouble\<close> is the double nearest
  to an integer, ties going to the even significand of 53 bits, and an infinity from
  \<open>2^1024 - 2^970\<close> on.
\<close>

datatype jsnum = NaN | Num int | PosInfinity | NegInfinity

fun bitlen :: "nat \<Rightarrow> nat" where
  "bitlen n = (if n = 0 then 0 else Suc (bitlen (n div 2)))"

definition roundNat :: "nat \<Rightarrow> nat" where
  "roundNat n =
     (if n < 2 ^ 53 then n
      else
        let e = bitlen n - 53;
            q = n div 2 ^ e;
            r = n mod 2 ^ e;
            half = 2 ^ (e - 1)
        in (if r > half \<or> (r = half \<and> odd q) then q + 1 else q) * 2 ^ e)"

definition roundToDouble :: "int \<Rightarrow> jsnum" where
  "roundToDouble i =
     (let m = roundNat (nat \<bar>i\<bar>)
      in if m \<ge> 2 ^ 1024 then (if i < 0 then NegInfinity else PosInfinity)
         else Num (if i < 0 then - int m else int m))"

fun num_sub :: "jsnum \<Rightarrow> int \<Rightarrow> jsnum" where
  \<comment> \<open>\<open>x - b\<close> for an integer literal \<open>b\<close>\<close>
  "num_sub (Num a) b = roundToDouble (a - b)"
| "num_sub x b = x"

fun num_add :: "jsnum \<Rightarrow> int \<Rightarrow> jsnum" where
  \<comment> \<open>\<open>x + b\<close> for an integer literal \<open>b\<close>\<close>
  "num_add (Num a) b = roundToDouble (a + b)"
| "num_add x b = x"

fun num_mul :: "jsnum \<Rightarrow> int \<Rightarrow> jsnum" where
  \<comment> \<open>\<open>x * b\<close> for an integer literal \<open>b\<close>\<close>
  "num_mul (Num a) b = roundToDouble (a * b)"
| "num_mul NaN b = NaN"
| "num_mul PosInfinity b = (if b > 0 then PosInfinity else if b < 0 then NegInfinity else NaN)"
| "num_mul NegInfinity b = (if b > 0 then NegInfinity else if b < 0 then PosInfinity else NaN)"

fun num_less :: "jsnum \<Rightarrow> int \<Rightarrow> bool" where
  \<comment> \<open>\<open>x < b\<close> for an integer \<open>b\<close>\<close>
  "num_less (Num a) b = (a < b)"
| "num_less NegInfinity b = True"
| "num_less x b = False"

definition isWhiteSpace :: "16 word \<Rightarrow> bool" where
  "isWhiteSpace c =
     (c = 0x09 \<or> c = 0x0A \<or> c = 0x0B \<or> c = 0x0C \<or> c = 0x0D \<or> c = 0x20 \<or> c = 0xA0
      \<or> c = 0x1680 \<or> (0x2000 \<le> c \<and> c \<le> 0x200A) \<or> c = 0x2028 \<or> c = 0x2029
      \<or> c = 0x202F \<or> c = 0x205F \<or> c = 0x3000 \<or> c = 0xFEFF)"

definition isDecimalDigit :: "16 word \<Rightarrow> bool" where
  "isDecimalDigit c = (0x30 \<le> c \<and> c \<le> 0x39)"

definition digitValue :: "16 word \<Rightarrow> nat option" where
  "digitValue c =
     (if isDecimalDigit c then Some (unat c - 48)
      else if 0x61 \<le> c \<and> c \<le> 0x7A then Some (unat c - 87)
      else if 0x41 \<le> c \<and> c \<le> 0x5A then Some (unat c - 55)
      else None)"

definition isRadixDigit :: "nat \<Rightarrow> 16 word \<Rightarrow> bool" where
  "isRadixDigit R c = (case digitValue c of None \<Rightarrow> False | Some d \<Rightarrow> d < R)"

definition mathInt :: "nat \<Rightarrow> js_string \<Rightarrow> nat" where
  "mathInt R Z =
     foldl (\<lambda>acc c. case digitValue c of None \<Rightarrow> acc | Some d \<Rightarrow> acc * R + d) 0 Z"

fun stripSign :: "js_string \<Rightarrow> int \<times> js_string" where
  "stripSign [] = (1, [])"
| "stripSign (c # cs) =
     (if c = 0x2D then (-1, cs) else if c = 0x2B then (1, cs) else (1, c # cs))"

definition hasHexPrefix :: "js_string \<Rightarrow> bool" where
  "hasHexPrefix S = (length S \<ge> 2 \<and> (take 2 S = [0x30, 0x78] \<or> take 2 S = [0x30, 0x58]))"

definition parseInt :: "js_string \<Rightarrow> int \<Rightarrow> jsnum" where
  "parseInt inputString radix =
     (let (sign, S) = stripSign (dropWhile isWhiteSpace inputString)
      in if radix \<noteq> 0 \<and> (radix < 2 \<or> radix > 36) then NaN
         else
           let stripPrefix = (radix = 0 \<or> radix = 16);
               hex = (stripPrefix \<and> hasHexPrefix S);
               R = (if hex then 16 else if radix = 0 then 10 else nat radix);
               Z = takeWhile (isRadixDigit R) (if hex then drop 2 S else S)
           in if Z = [] then NaN else roundToDouble (sign * int (mathInt R Z)))"

definition orOne :: "jsnum \<Rightarrow> jsnum" where
  \<comment> \<open>\<open>n || 1\<close>: \<open>NaN\<close> and zero are falsy\<close>
  "orOne n = (if n = NaN \<or> n = Num 0 then Num 1 else n)"

definition toString :: "js_string option \<Rightarrow> js_string" where
  \<comment> \<open>the string \<open>parseInt\<close> makes of a query parameter; \<open>None\<close> is \<open>undefined\<close>\<close>
  "toString q = (case q of None \<Rightarrow> str ''undefined'' | Some s \<Rightarrow> s)"

fun decimal :: "nat \<Rightarrow> js_string" where
  \<comment> \<open>the decimal numeral of a number, as \<open>String(n)\<close> writes it\<close>
  "decimal n =
     (if n < 10 then [of_nat (48 + n)]
      else decimal (n div 10) @ [of_nat (48 + n mod 10)])"

subsection \<open>GET /fetch/:type/:userId\<close>

record object_summary =
  os_objectId :: js_string
  os_size :: nat
  os_createdAt :: int
  os_expiresAt :: int

record pagination =
  pg_page :: int
  pg_limit :: int
  pg_totalObjects :: nat
  pg_totalPages :: int
  pg_hasNextPage :: bool
  pg_hasPrevPage :: bool

record fetch_body =
  fb_type :: js_string
  fb_userId :: js_string
  fb_objects :: "object_summary list"
  fb_pagination :: pagination

datatype fetch_response = Fetch400 string | Fetch500 | Fetch200 fetch_body

text \<open>
  The offset is bound to the statement as the number it is, and SQLite takes a number
  for \<open>OFFSET\<close> only when it is an integer strictly between \<open>-2^63\<close> and \<open>2^63\<close>;
  otherwise the statement fails with a datatype mismatch, which the handler's \<open>catch\<close>
  answers with status 500. \<open>toISOString\<close> throws outside the range of times a \<open>Date\<close>
  holds, 8.64e15 ms either side of the epoch, with the same answer.
\<close>

definition sqlInteger :: "jsnum \<Rightarrow> int option" where
  "sqlInteger x =
     (case x of
        Num i \<Rightarrow> if - (2 ^ 63) < i \<and> i < 2 ^ 63 then Some i else None
      | _ \<Rightarrow> None)"

definition validTime :: "int \<Rightarrow> bool" where
  "validTime t = (\<bar>t\<bar> \<le> 8640000000000000)"

definition datesFormat :: "row \<Rightarrow> bool" where
  \<comment> \<open>both \<open>toISOString\<close> calls of the listing succeed on the row\<close>
  "datesFormat obj =
     (validTime (created_at obj) \<and> validTime (created_at obj + 25 * 24 * 60 * 60 * 1000))"

definition orderByCreatedAtDesc :: "objects \<Rightarrow> objects" where
  \<comment> \<open>\<open>ORDER BY created_at DESC\<close>; rows of equal time keep the order of the scan\<close>
  "orderByCreatedAtDesc rows = sort_key (\<lambda>r. - created_at r) rows"

definition limitOffset :: "int \<Rightarrow> int \<Rightarrow> 'a list \<Rightarrow> 'a list" where
  \<comment> \<open>\<open>LIMIT l OFFSET k\<close>; SQLite reads a negative offset as zero\<close>
  "limitOffset l k xs = take (nat l) (drop (nat k) xs)"

definition liveRows :: "js_string \<Rightarrow> js_string \<Rightarrow> int \<Rightarrow> objects \<Rightarrow> objects" where
  \<comment> \<open>\<open>WHERE userId = ? AND type = ? AND created_at >= ?\<close>\<close>
  "liveRows uid ty ttlTimestamp tbl =
     filter (\<lambda>r. userId r = uid \<and> type r = ty \<and> created_at r \<ge> ttlTimestamp) tbl"

definition summary :: "row \<Rightarrow> object_summary" where
  "summary obj =
     \<lparr>os_objectId = objectId obj, os_size = length (data obj),
      os_createdAt = created_at obj,
      os_expiresAt = created_at obj + 25 * 24 * 60 * 60 * 1000\<rparr>"

definition fetch ::
  "(js_string \<Rightarrow> js_string) \<Rightarrow> local_tza \<Rightarrow> int \<Rightarrow> js_string \<Rightarrow> js_string \<Rightarrow>
   js_string option \<Rightarrow> objects \<Rightarrow> fetch_response" where
  "fetch sha256hex tza now type0 userId0 query_page tbl =
     (let page = orOne (parseInt (toString query_page) 0);
          limit = 10;
          offset = num_mul (num_sub page 1) limit
      in case validateType type0 of
           Inl message \<Rightarrow> Fetch400 message
         | Inr ty \<Rightarrow>
             let uid = ensureSha256 sha256hex userId0;
                 ttlTimestamp = getTTLTimestamp tza now;
                 count = length (liveRows uid ty ttlTimestamp tbl)
             in (case page of
                   Num p \<Rightarrow>
                     (case sqlInteger offset of
                        None \<Rightarrow> Fetch500
                      | Some k \<Rightarrow>
                          let objs = limitOffset limit k
                                       (orderByCreatedAtDesc (liveRows uid ty ttlTimestamp tbl));
                              totalPages = \<lceil>real count / real_of_int limit\<rceil>
                          in if list_all datesFormat objs
                             then Fetch200
                                    \<lparr>fb_type = ty, fb_userId = uid,
                                     fb_objects = map summary objs,
                                     fb_pagination =
                                       \<lparr>pg_page = p, pg_limit = limit,
                                        pg_totalObjects = count, pg_totalPages = totalPages,
                                        pg_hasNextPage = (p < totalPages),
                                        pg_hasPrevPage = (p > 1)\<rparr>\<rparr>
                             else Fetch500)
                 | _ \<Rightarrow> Fetch500))"

section \<open>The content-fingerprint variant\<close>

text \<open>
  The second server file of the repository keys a row by a digest of its content:
  \<open>objectId TEXT PRIMARY KEY\<close>, no \<open>type\<close> column, the entry stored as the JSON text.
\<close>

record object_fp =
  objectId_fp :: js_string
  userId_fp :: js_string
  entry :: js_string
  created_at_fp :: int

type_synonym objects_fp = "object_fp list"

definition insert_or_replace_fp :: "object_fp \<Rightarrow> objects_fp \<Rightarrow> objects_fp" where
  "insert_or_replace_fp r tbl = filter (\<lambda>x. objectId_fp x \<noteq> objectId_fp r) tbl @ [r]"

definition hashUserId :: "(js_string \<Rightarrow> js_string) \<Rightarrow> js_string \<Rightarrow> js_string" where
  "hashUserId sha256hex uid = sha256hex uid"

definition deleteOldEntries :: "int \<Rightarrow> objects_fp \<Rightarrow> objects_fp" where
  "deleteOldEntries now tbl =
     (let tenDaysAgo = now - 10 * 24 * 60 * 60 * 1000
      in filter (\<lambda>r. \<not> created_at_fp r < tenDaysAgo) tbl)"

subsection \<open>GET /server\<close>

text \<open>
  SQLite's \<open>LENGTH\<close> of a text value counts characters up to the first NUL: a surrogate
  pair of the JavaScript string is one character, a lone surrogate is written as one
  replacement character. \<open>SUM\<close> starts from NULL and adds each row.
\<close>

definition isHighSurrogate :: "16 word \<Rightarrow> bool" where
  "isHighSurrogate c = (0xD800 \<le> c \<and> c \<le> 0xDBFF)"

definition isLowSurrogate :: "16 word \<Rightarrow> bool" where
  "isLowSurrogate c = (0xDC00 \<le> c \<and> c \<le> 0xDFFF)"

fun codePoints :: "js_string \<Rightarrow> nat" where
  "codePoints [] = 0"
| "codePoints [c] = 1"
| "codePoints (c # d # cs) =
     (if isHighSurrogate c \<and> isLowSurrogate d
      then 1 + codePoints cs else 1 + codePoints (d # cs))"

definition sql_length :: "js_string \<Rightarrow> nat" where
  "sql_length s = codePoints (takeWhile (\<lambda>c. c \<noteq> 0) s)"

fun utf8Length :: "js_string \<Rightarrow> nat" where
  \<comment> \<open>the bytes of the string in UTF-8, the encoding the text is stored in\<close>
  "utf8Length [] = 0"
| "utf8Length [c] = (if c < 0x80 then 1 else if c < 0x800 then 2 else 3)"
| "utf8Length (c # d # cs) =
     (if c < 0x80 then 1 + utf8Length (d # cs)
      else if c < 0x800 then 2 + utf8Length (d # cs)
      else if isHighSurrogate c \<and> isLowSurrogate d then 4 + utf8Length cs
      else 3 + utf8Length (d # cs))"

definition sql_sum :: "nat list \<Rightarrow> nat option" where
  "sql_sum xs = foldl (\<lambda>acc x. case acc of None \<Rightarrow> Some x | Some a \<Rightarrow> Some (a + x)) None xs"

record server_stats =
  totalEntries :: nat
  totalUsers :: nat
  totalSize :: "nat option"

definition server :: "objects_fp \<Rightarrow> server_stats" where
  "server tbl =
     \<lparr>totalEntries = length tbl,
      totalUsers = length (remdups (map userId_fp tbl)),
      totalSize = sql_sum (map (\<lambda>r. sql_length (entry r)) tbl)\<rparr>"

subsection \<open>POST /save/:userId\<close>

datatype save_fp_response = SaveFp500 | SaveFp200 js_string int

text \<open>
  \<open>dat\<close> is \<open>JSON.stringify(req.body)\<close>: a string, or \<open>None\<close> when it is \<open>undefined\<close>.
  The \<open>throw\<close> is caught by the handler and answered with status 500.
\<close>

definition save_fp ::
  "(js_string \<Rightarrow> js_string) \<Rightarrow> int \<Rightarrow> js_string \<Rightarrow> js_string option \<Rightarrow> objects_fp \<Rightarrow>
   save_fp_response \<times> objects_fp" where
  "save_fp sha256hex now uid dat tbl =
     (let hashedUserId = hashUserId sha256hex uid
      in case dat of
           None \<Rightarrow> (SaveFp500, tbl)
         | Some d \<Rightarrow>
             if length d = 0 then (SaveFp500, tbl)
             else
               let oid = hashUserId sha256hex (d @ hashedUserId)
               in (SaveFp200 oid (now + 25 * 24 * 60 * 60 * 1000),
                   insert_or_replace_fp
                     \<lparr>objectId_fp = oid, userId_fp = hashedUserId, entry = d,
                      created_at_fp = now\<rparr> tbl))"

subsection \<open>GET /fetch/:userId/:page\<close>

record 'v fetch_fp_body =
  fp_page :: int
  fp_limit :: int
  fp_totalPages :: int
  fp_totalCount :: nat
  fp_hasNextPage :: bool
  fp_hasPreviousPage :: bool
  fp_data :: "'v list"

datatype 'v fetch_fp_response = FetchFp404 | FetchFp500 | FetchFp200 "'v fetch_fp_body"

text \<open>
  \<open>JSON.parse\<close> is the platform's and a parameter here: \<open>jsonParse s\<close> is the value of the
  text \<open>s\<close>, or \<open>None\<close> where \<open>JSON.parse\<close> throws, which the handler answers with
  status 500, as it answers a page whose offset SQLite refuses.
\<close>

fun parseAll :: "(js_string \<Rightarrow> 'v option) \<Rightarrow> js_string list \<Rightarrow> 'v list option" where
  "parseAll jsonParse [] = Some []"
| "parseAll jsonParse (s # ss) =
     (case jsonParse s of
        None \<Rightarrow> None
      | Some v \<Rightarrow> (case parseAll jsonParse ss of None \<Rightarrow> None | Some vs \<Rightarrow> Some (v # vs)))"

definition fetch_fp ::
  "(js_string \<Rightarrow> js_string) \<Rightarrow> (js_string \<Rightarrow> 'v option) \<Rightarrow> js_string \<Rightarrow> js_string \<Rightarrow>
   objects_fp \<Rightarrow> 'v fetch_fp_response" where
  "fetch_fp sha256hex jsonParse uid page_param tbl =
     (let page = orOne (parseInt page_param 10);
          hashedUserId = hashUserId sha256hex uid;
          limit = 30;
          offset = num_mul (num_sub page 1) limit;
          mine = filter (\<lambda>r. userId_fp r = hashedUserId) tbl;
          totalCount = length mine
      in case page of
           Num p \<Rightarrow>
             (case sqlInteger offset of
                None \<Rightarrow> FetchFp500
              | Some k \<Rightarrow>
                  let objs = limitOffset limit k (sort_key (\<lambda>r. - created_at_fp r) mine)
                  in if length objs = 0 then FetchFp404
                     else (case parseAll jsonParse (map entry objs) of
                             None \<Rightarrow> FetchFp500
                           | Some values \<Rightarrow>
                               FetchFp200
                                 \<lparr>fp_page = p, fp_limit = limit,
                                  fp_totalPages = \<lceil>real totalCount / real_of_int limit\<rceil>,
                                  fp_totalCount = totalCount,
                                  fp_hasNextPage = num_less (num_add offset limit) (int totalCount),
                                  fp_hasPreviousPage = (p > 1),
                                  fp_data = values\<rparr>))
         | _ \<Rightarrow> FetchFp500)"

section \<open>Saving: validation comes first\<close>

text \<open>
  C8. A save whose payload is missing or empty is answered with status 400 "No data
  provided", and a save whose type is empty, longer than 20 characters or has a character
  outside letters, digits and underscore is answered with status 400 as well; whenever
  the answer is a 400 the table is the one the request found.
\<close>

theorem save_rejects_before_storing:
  "(body = None \<or> body = Some [] \<longrightarrow>
      save H rid now ty uid oid body tbl = (Status400 ''No data provided'', tbl))
   \<and> (length ty = 0 \<or> length ty > 20 \<or> \<not> list_all wordChar ty \<longrightarrow>
      (\<exists>m. fst (save H rid now ty uid oid body tbl) = Status400 m)
      \<and> snd (save H rid now ty uid oid body tbl) = tbl)
   \<and> (\<forall>m. fst (save H rid now ty uid oid body tbl) = Status400 m \<longrightarrow>
      snd (save H rid now ty uid oid body tbl) = tbl)"
  by (auto simp: save_def validateType_def Let_def split: option.splits sum.splits if_splits)

theorem save_rejects_before_storing_witness:
  "save (\<lambda>s. s) (str ''r1'') 1000 (str ''note'') (str ''alice'') (str ''k1'') (Some []) []
     = (Status400 ''No data provided'', [])
   \<and> snd (save (\<lambda>s. s) (str ''r1'') 1000 (str ''bad tag!'') (str ''alice'') (str ''k1'')
        (Some [0x68]) []) = []"
  using
    save_rejects_before_storing [of "Some []" "\<lambda>s. s" "str ''r1''" 1000 "str ''note''"
      "str ''alice''" "str ''k1''" "[]"]
    save_rejects_before_storing [of "Some [0x68]" "\<lambda>s. s" "str ''r1''" 1000
      "str ''bad tag!''" "str ''alice''" "str ''k1''" "[]"]
  by (simp add: str_def wordChar_def)

section \<open>The owner key\<close>

text \<open>
  C6. An identifier of 64 hexadecimal characters is the owner key as it stands, and an
  identifier of any other length is replaced by its SHA-256 digest.
\<close>

theorem ensureSha256_passes_hex_through:
  "(length s = 64 \<and> list_all isHexDigit s \<longrightarrow> ensureSha256 H s = s)
   \<and> (length s \<noteq> 64 \<longrightarrow> ensureSha256 H s = H s)"
  by (simp add: ensureSha256_def)

theorem ensureSha256_passes_hex_through_witness:
  "ensureSha256 (\<lambda>s. replicate 64 0x30) (replicate 64 0x61) = replicate 64 0x61
   \<and> ensureSha256 (\<lambda>s. replicate 64 0x30) (str ''alice'') = replicate 64 0x30"
  using
    ensureSha256_passes_hex_through [of "replicate 64 0x61" "\<lambda>s. replicate 64 0x30"]
    ensureSha256_passes_hex_through [of "str ''alice''" "\<lambda>s. replicate 64 0x30"]
  by (simp add: isHexDigit_def isLowerHexDigit_def list_all_iff str_def)

text \<open>
  C2. The owner key that reaches the table is meant to be a SHA-256 digest in lower-case
  hexadecimal. The save of app.js tests the length alone: an identifier of 64 letters
  \<open>z\<close> is stored as it came, and it is no such digest.
\<close>

theorem save_stores_raw_userId_of_length_64:
  "snd (save H rid now (str ''note'') (replicate 64 0x7A) (str ''k1'') (Some [0x61]) [])
     = [\<lparr>id_pk = rid, objectId = str ''k1'', userId = replicate 64 0x7A, type = str ''note'',
         data = [0x61], created_at = now\<rparr>]
   \<and> \<not> isSha256Hex (replicate 64 0x7A)"
  by (simp add: save_def validateType_def ensureSha256_def insert_or_replace_def
      isSha256Hex_def isLowerHexDigit_def str_def wordChar_def Let_def list_all_iff)

section \<open>Saving twice\<close>

text \<open>
  C1. Two saves under one type, owner and objectId are meant to leave one row with the
  later payload. In app.js every save gets a fresh primary key \<open>id\<close>, so the second save
  replaces nothing: both rows are in the table afterwards.
\<close>

theorem save_twice_keeps_both_rows:
  "snd (save H (str ''id2'') 2000 (str ''note'') (str ''alice'') (str ''k1'') (Some [0x62])
     (snd (save H (str ''id1'') 1000 (str ''note'') (str ''alice'') (str ''k1'')
        (Some [0x61]) [])))
   = [\<lparr>id_pk = str ''id1'', objectId = str ''k1'', userId = H (str ''alice''),
        type = str ''note'', data = [0x61], created_at = 1000\<rparr>,
      \<lparr>id_pk = str ''id2'', objectId = str ''k1'', userId = H (str ''alice''),
        type = str ''note'', data = [0x62], created_at = 2000\<rparr>]"
  by (simp add: save_def validateType_def ensureSha256_def insert_or_replace_def str_def
      wordChar_def Let_def)

section \<open>The sweeps\<close>

lemma getTTLTimestamp_fixed_offset:
  "(\<And>t b. tza t b = c) \<Longrightarrow> getTTLTimestamp tza now = now - 25 * msPerDay"
  by (simp add: getTTLTimestamp_def Let_def)

text \<open>
  C4. Every run of a sweeper is meant to delete exactly the rows older than 25 days.
  On a host in the time zone Europe/London at 2024-11-03T12:00:00Z the cutoff of
  \<open>cleanupExpiredItems\<close> lies an hour before \<open>now\<close> less 25 days, as in the read paths:
  a row 25 days and one millisecond old is kept and no row is counted as deleted. The
  sweeper of the content-fingerprint variant deletes what is older than ten days: an
  entry saved with the answer \<open>expiresAt\<close> of 25 days later is gone at a run 15 days
  after the save.
\<close>

theorem sweeps_miss_the_25_day_cutoff:
  "cleanupExpiredItems europe_london_2024 1730635200000
     [\<lparr>id_pk = str ''id1'', objectId = str ''k1'', userId = replicate 64 0x61,
       type = str ''note'', data = [0x68, 0x69],
       created_at = 1730635200000 - 25 * msPerDay - 1\<rparr>]
   = (0, [\<lparr>id_pk = str ''id1'', objectId = str ''k1'', userId = replicate 64 0x61,
       type = str ''note'', data = [0x68, 0x69],
       created_at = 1730635200000 - 25 * msPerDay - 1\<rparr>])
   \<and> fst (save_fp H 1730635200000 (str ''alice'') (Some (str ''{}'')) [])
       = SaveFp200 (H (str ''{}'' @ H (str ''alice''))) (1730635200000 + 25 * msPerDay)
   \<and> deleteOldEntries (1730635200000 + 15 * msPerDay)
        (snd (save_fp H 1730635200000 (str ''alice'') (Some (str ''{}'')) [])) = []"
  by (simp add: cleanupExpiredItems_def getTTLTimestamp_def europe_london_2024_def
      msPerDay_def deleteOldEntries_def save_fp_def hashUserId_def insert_or_replace_fp_def
      str_def Let_def)

section \<open>The content-fingerprint variant: saving and statistics\<close>

text \<open>
  C9. The key of a saved entry is the digest of the payload followed by the owner key.
  Saving one payload twice for one owner leaves exactly one row under that key, equal to
  the row of the first save but for \<open>created_at\<close>, and no other row is touched.
\<close>

theorem save_fp_twice_is_idempotent:
  "d \<noteq> [] \<Longrightarrow>
   (let oid = H (d @ H uid);
        t1 = snd (save_fp H now1 uid (Some d) tbl);
        t2 = snd (save_fp H now2 uid (Some d) t1)
    in fst (save_fp H now1 uid (Some d) tbl) = SaveFp200 oid (now1 + 25 * msPerDay)
     \<and> fst (save_fp H now2 uid (Some d) t1) = SaveFp200 oid (now2 + 25 * msPerDay)
     \<and> filter (\<lambda>r. objectId_fp r = oid) t1
         = [\<lparr>objectId_fp = oid, userId_fp = H uid, entry = d, created_at_fp = now1\<rparr>]
     \<and> filter (\<lambda>r. objectId_fp r = oid) t2
         = [\<lparr>objectId_fp = oid, userId_fp = H uid, entry = d, created_at_fp = now2\<rparr>]
     \<and> filter (\<lambda>r. objectId_fp r \<noteq> oid) t2 = filter (\<lambda>r. objectId_fp r \<noteq> oid) tbl)"
  by (simp add: save_fp_def hashUserId_def insert_or_replace_fp_def Let_def msPerDay_def
      filter_empty_conv)

theorem save_fp_twice_is_idempotent_witness:
  "snd (save_fp (\<lambda>s. take 2 s) 2000 (str ''alice'') (Some (str ''{}''))
     (snd (save_fp (\<lambda>s. take 2 s) 1000 (str ''alice'') (Some (str ''{}'')) [])))
   = [\<lparr>objectId_fp = str ''{}'', userId_fp = str ''al'', entry = str ''{}'', created_at_fp = 2000\<rparr>]"
  using save_fp_twice_is_idempotent [of "str ''{}''" "\<lambda>s. take 2 s" "str ''alice''" 1000 "[]" 2000]
  by (simp add: save_fp_def hashUserId_def insert_or_replace_fp_def Let_def str_def)

text \<open>
  C7. \<open>/server\<close> is meant to report the byte size of the stored payloads. Its
  \<open>SUM(LENGTH(entry))\<close> runs over the entries as text and counts characters: after the
  save of a JSON object whose member \<open>a\<close> is the one-character string U+1F600 it reports
  9, where the stored text has 12 bytes and the JavaScript string 10 code units.
\<close>

theorem server_totalSize_counts_characters:
  "totalSize (server (snd (save_fp H 1000 (str ''alice'')
       (Some [0x7B, 0x22, 0x61, 0x22, 0x3A, 0x22, 0xD83D, 0xDE00, 0x22, 0x7D]) []))) = Some 9
   \<and> length [0x7B, 0x22, 0x61, 0x22, 0x3A, 0x22, 0xD83D, 0xDE00, 0x22, 0x7D :: 16 word] = 10
   \<and> utf8Length [0x7B, 0x22, 0x61, 0x22, 0x3A, 0x22, 0xD83D, 0xDE00, 0x22, 0x7D] = 12"
  by (simp add: server_def save_fp_def hashUserId_def insert_or_replace_fp_def sql_sum_def
      sql_length_def isHighSurrogate_def isLowSurrogate_def Let_def)

section \<open>Numbers\<close>

declare bitlen.simps [simp del]

lemma bitlen_pow2: "bitlen (2 ^ k) = Suc k"
proof (induction k)
  case 0
  show ?case by (simp add: bitlen.simps [of "Suc 0"] bitlen.simps [of 0])
next
  case (Suc k)
  then show ?case by (simp add: bitlen.simps [of "2 * 2 ^ k"])
qed

lemma roundNat_exact: "n \<le> 2 ^ 53 \<Longrightarrow> roundNat n = n"
proof (cases "n < 2 ^ 53")
  case True
  then show ?thesis by (simp add: roundNat_def)
next
  case False
  assume "n \<le> 2 ^ 53"
  with False have n: "n = 2 ^ 53" by simp
  have "bitlen (2 ^ 53) = 54" using bitlen_pow2 [of 53] by simp
  then show ?thesis unfolding n
    by (simp add: roundNat_def Let_def)
qed

lemma roundToDouble_exact: "\<bar>i\<bar> \<le> 2 ^ 53 \<Longrightarrow> roundToDouble i = Num i"
proof -
  assume h: "\<bar>i\<bar> \<le> 2 ^ 53"
  then have le: "nat \<bar>i\<bar> \<le> 2 ^ 53"
    by (simp add: nat_le_iff)
  have "(2::nat) ^ 53 < 2 ^ 1024" by simp
  with le have "\<not> (2::nat) ^ 1024 \<le> nat \<bar>i\<bar>" by linarith
  then show ?thesis
    by (simp add: roundToDouble_def roundNat_exact [OF le] Let_def)
qed

lemma sqlInteger_exact: "\<bar>i\<bar> \<le> 2 ^ 53 \<Longrightarrow> sqlInteger (Num i) = Some i"
  by (simp add: sqlInteger_def) arith

lemma round_example:
  "roundToDouble 9007199254740993 = Num 9007199254740992"
  "roundToDouble 9007199254740995 = Num 9007199254740996"
  by (simp_all add: roundToDouble_def roundNat_def Let_def bitlen.simps)

section \<open>Reading a page number\<close>

lemma digit_char:
  assumes "n < 10"
  shows "digitValue (of_nat (48 + n)) = Some n"
    and "isDecimalDigit (of_nat (48 + n))"
proof -
  from assms have "n \<in> {0, 1, 2, 3, 4, 5, 6, 7, 8, 9}"
    by auto
  then show "digitValue (of_nat (48 + n)) = Some n" and "isDecimalDigit (of_nat (48 + n))"
    by (auto simp: digitValue_def isDecimalDigit_def)
qed

lemma digit_props:
  assumes "isDecimalDigit c"
  shows "\<not> isWhiteSpace c" "c \<noteq> 0x2D" "c \<noteq> 0x2B" "c \<noteq> 0x78" "c \<noteq> 0x58"
  using assms by (auto simp: isWhiteSpace_def isDecimalDigit_def word_le_nat_alt)

lemma digit_radix:
  assumes "isDecimalDigit c"
  shows "isRadixDigit 10 c"
proof -
  from assms have "48 \<le> unat c \<and> unat c \<le> 57"
    by (simp add: word_le_nat_alt isDecimalDigit_def)
  then have "unat c - 48 < 10" by arith
  then show ?thesis using assms
    by (simp add: isRadixDigit_def digitValue_def)
qed

lemma radix10_digit:
  "isRadixDigit 10 c \<Longrightarrow> isDecimalDigit c"
  by (auto simp: isRadixDigit_def digitValue_def word_le_nat_alt isDecimalDigit_def split: if_splits)

declare decimal.simps [simp del]

lemma decimal_digits: "list_all isDecimalDigit (decimal n)"
proof (induction n rule: decimal.induct)
  case (1 n)
  show ?case
  proof (cases "n < 10")
    case True
    then show ?thesis by (simp add: decimal.simps [of n] digit_char del: of_nat_add)
  next
    case False
    then have "n mod 10 < 10" by simp
    with False 1 show ?thesis by (simp add: decimal.simps [of n] digit_char del: of_nat_add)
  qed
qed

lemma decimal_nonempty: "decimal n \<noteq> []"
  by (simp add: decimal.simps [of n])

lemma mathInt_snoc:
  "digitValue c = Some d \<Longrightarrow> mathInt R (Z @ [c]) = mathInt R Z * R + d"
  by (simp add: mathInt_def)

lemma mathInt_decimal: "mathInt 10 (decimal n) = n"
proof (induction n rule: decimal.induct)
  case (1 n)
  show ?case
  proof (cases "n < 10")
    case True
    then show ?thesis by (simp add: decimal.simps [of n] mathInt_def digit_char del: of_nat_add)
  next
    case False
    then have "n mod 10 < 10" by simp
    then have "digitValue (of_nat (48 + n mod 10)) = Some (n mod 10)" by (rule digit_char)
    with False 1 show ?thesis
      by (simp add: decimal.simps [of n] mathInt_snoc del: of_nat_add)
  qed
qed

lemma digits_prefix:
  assumes "list_all isDecimalDigit S" "S \<noteq> []"
  shows "dropWhile isWhiteSpace S = S" "stripSign S = (1, S)" "\<not> hasHexPrefix S"
    "takeWhile (isRadixDigit 10) S = S"
proof -
  from assms obtain c cs where S: "S = c # cs" and c: "isDecimalDigit c"
    by (cases S) auto
  show "dropWhile isWhiteSpace S = S" using S digit_props(1) [OF c] by simp
  show "stripSign S = (1, S)" using S digit_props(2,3) [OF c] by simp
  show "takeWhile (isRadixDigit 10) S = S"
    using assms(1) by (simp add: takeWhile_eq_all_conv list_all_iff digit_radix)
  show "\<not> hasHexPrefix S"
  proof
    assume "hasHexPrefix S"
    then obtain d ds where "cs = d # ds" "d = 0x78 \<or> d = 0x58"
      using S by (cases cs) (auto simp: hasHexPrefix_def)
    moreover have "isDecimalDigit d" using assms(1) S \<open>cs = d # ds\<close> by simp
    ultimately show False using digit_props(4,5) by blast
  qed
qed

lemma parseInt_decimal:
  "parseInt (decimal n) 0 = roundToDouble (int n)"
  "parseInt (decimal n) 10 = roundToDouble (int n)"
  by (simp_all add: parseInt_def Let_def mathInt_decimal decimal_nonempty
      digits_prefix [OF decimal_digits decimal_nonempty])

lemma parseInt_no_leading_digit:
  assumes "\<forall>c cs. snd (stripSign (dropWhile isWhiteSpace s)) = c # cs \<longrightarrow> \<not> isDecimalDigit c"
  shows "parseInt s 0 = NaN" "parseInt s 10 = NaN"
proof -
  obtain sg S where sS: "stripSign (dropWhile isWhiteSpace s) = (sg, S)"
    by (cases "stripSign (dropWhile isWhiteSpace s)")
  have nd: "takeWhile (isRadixDigit 10) S = []"
  proof (cases S)
    case Nil then show ?thesis by simp
  next
    case (Cons c cs)
    with assms sS have "\<not> isDecimalDigit c" by simp
    then have "\<not> isRadixDigit 10 c" using radix10_digit by blast
    with Cons show ?thesis by simp
  qed
  have nh: "\<not> hasHexPrefix S"
  proof
    assume h: "hasHexPrefix S"
    then obtain c cs where "S = c # cs" "c = 0x30"
      by (cases S) (auto simp: hasHexPrefix_def)
    moreover from this assms sS have "\<not> isDecimalDigit c" by simp
    ultimately show False by (simp add: isDecimalDigit_def)
  qed
  show "parseInt s 0 = NaN" "parseInt s 10 = NaN"
    using sS nd nh by (simp_all add: parseInt_def Let_def)
qed

lemma parseInt_undefined: "parseInt (toString None) 0 = NaN"
  by (simp add: parseInt_def toString_def str_def isWhiteSpace_def hasHexPrefix_def
      isRadixDigit_def digitValue_def isDecimalDigit_def Let_def)

lemma toString_Some: "toString (Some s) = s"
  by (simp add: toString_def)

lemma orOne_decimal:
  assumes "n \<le> 2 ^ 53"
  shows "orOne (parseInt (decimal n) 0) = (if n = 0 then Num 1 else Num (int n))"
    and "orOne (parseInt (decimal n) 10) = (if n = 0 then Num 1 else Num (int n))"
proof -
  from assms have "\<bar>int n\<bar> \<le> 2 ^ 53"
    by (simp add: of_nat_le_iff [of n "2 ^ 53", where ?'a = int, simplified])
  then have "roundToDouble (int n) = Num (int n)" by (rule roundToDouble_exact)
  then show "orOne (parseInt (decimal n) 0) = (if n = 0 then Num 1 else Num (int n))"
    and "orOne (parseInt (decimal n) 10) = (if n = 0 then Num 1 else Num (int n))"
    by (simp_all add: orOne_def parseInt_decimal)
qed

lemma orOne_not_numeric:
  assumes "\<forall>c cs. snd (stripSign (dropWhile isWhiteSpace s)) = c # cs \<longrightarrow> \<not> isDecimalDigit c"
  shows "orOne (parseInt s 0) = Num 1" "orOne (parseInt s 10) = Num 1"
  by (simp_all add: parseInt_no_leading_digit [OF assms] orOne_def)

lemma orOne_undefined: "orOne (parseInt (toString None) 0) = Num 1"
  by (simp add: parseInt_undefined orOne_def)

section \<open>Answers of the listings\<close>

lemma offset_exact:
  assumes "\<bar>(p - 1) * l\<bar> \<le> 2 ^ 53" "l \<ge> 1"
  shows "num_mul (num_sub (Num p) 1) l = Num ((p - 1) * l)"
    and "sqlInteger (Num ((p - 1) * l)) = Some ((p - 1) * l)"
proof -
  have "\<bar>p - 1\<bar> * 1 \<le> \<bar>p - 1\<bar> * l"
    using assms(2) by (intro mult_left_mono) simp_all
  then have "\<bar>p - 1\<bar> \<le> \<bar>(p - 1) * l\<bar>"
    using assms(2) by (simp add: abs_mult)
  with assms(1) have "\<bar>p - 1\<bar> \<le> 2 ^ 53" by linarith
  then show "num_mul (num_sub (Num p) 1) l = Num ((p - 1) * l)"
    using assms(1) by (simp add: roundToDouble_exact)
  show "sqlInteger (Num ((p - 1) * l)) = Some ((p - 1) * l)"
    using assms(1) by (rule sqlInteger_exact)
qed

lemma listed_rows_format:
  "list_all datesFormat tbl \<Longrightarrow>
   list_all datesFormat (limitOffset l k (orderByCreatedAtDesc (liveRows u t c tbl)))"
  by (auto simp: list_all_iff limitOffset_def orderByCreatedAtDesc_def liveRows_def
      dest!: in_set_takeD in_set_dropD)

lemma fetch_page:
  assumes "validateType ty = Inr ty"
    and "list_all datesFormat tbl"
    and "orOne (parseInt (toString q) 0) = Num p"
    and "\<bar>(p - 1) * 10\<bar> \<le> 2 ^ 53"
  shows "fetch H tza now ty uid q tbl =
     Fetch200
       \<lparr>fb_type = ty, fb_userId = ensureSha256 H uid,
        fb_objects = map summary (take 10 (drop (nat ((p - 1) * 10))
          (orderByCreatedAtDesc
             (liveRows (ensureSha256 H uid) ty (getTTLTimestamp tza now) tbl)))),
        fb_pagination =
          \<lparr>pg_page = p, pg_limit = 10,
           pg_totalObjects =
             length (liveRows (ensureSha256 H uid) ty (getTTLTimestamp tza now) tbl),
           pg_totalPages =
             \<lceil>real (length (liveRows (ensureSha256 H uid) ty (getTTLTimestamp tza now) tbl)) / 10\<rceil>,
           pg_hasNextPage =
             (p < \<lceil>real (length (liveRows (ensureSha256 H uid) ty (getTTLTimestamp tza now) tbl)) / 10\<rceil>),
           pg_hasPrevPage = (1 < p)\<rparr>\<rparr>"
proof -
  have fmt: "list_all datesFormat (limitOffset 10 ((p - 1) * 10)
      (orderByCreatedAtDesc (liveRows (ensureSha256 H uid) ty (getTTLTimestamp tza now) tbl)))"
    using assms(2) by (rule listed_rows_format)
  have off: "num_mul (num_sub (Num p) 1) 10 = Num ((p - 1) * 10)"
    "sqlInteger (Num ((p - 1) * 10)) = Some ((p - 1) * 10)"
    using offset_exact [OF assms(4)] by simp_all
  show ?thesis
    unfolding fetch_def Let_def assms(1) assms(3) off
    using fmt by (simp add: limitOffset_def)
qed

lemma fetch_fp_page:
  assumes "orOne (parseInt s 10) = Num p"
    and "\<bar>(p - 1) * 30\<bar> + 30 \<le> 2 ^ 53"
  shows "fetch_fp H J uid s ftbl =
     (let mine = filter (\<lambda>r. userId_fp r = H uid) ftbl;
          slice = take 30 (drop (nat ((p - 1) * 30)) (sort_key (\<lambda>r. - created_at_fp r) mine))
      in if slice = [] then FetchFp404
         else case parseAll J (map entry slice) of
                None \<Rightarrow> FetchFp500
              | Some vs \<Rightarrow>
                  FetchFp200
                    \<lparr>fp_page = p, fp_limit = 30,
                     fp_totalPages = \<lceil>real (length mine) / 30\<rceil>,
                     fp_totalCount = length mine,
                     fp_hasNextPage = ((p - 1) * 30 + 30 < int (length mine)),
                     fp_hasPreviousPage = (1 < p), fp_data = vs\<rparr>)"
proof -
  from assms(2) have a: "\<bar>(p - 1) * 30\<bar> \<le> 2 ^ 53" by linarith
  from assms(2) have "\<bar>(p - 1) * 30 + 30\<bar> \<le> 2 ^ 53" by linarith
  then have b: "roundToDouble ((p - 1) * 30 + 30) = Num ((p - 1) * 30 + 30)"
    by (rule roundToDouble_exact)
  have off: "num_mul (num_sub (Num p) 1) 30 = Num ((p - 1) * 30)"
    "sqlInteger (Num ((p - 1) * 30)) = Some ((p - 1) * 30)"
    using offset_exact [OF a] by simp_all
  have nxt: "num_add (Num ((p - 1) * 30)) 30 = Num ((p - 1) * 30 + 30)"
    using b by simp
  show ?thesis
    unfolding fetch_fp_def Let_def assms(1) off nxt
    by (auto simp: limitOffset_def hashUserId_def split: option.splits)
qed

lemma ceiling_less_iff_page:
  "(p < \<lceil>real n / 10\<rceil>) = (p * 10 < int n)"
  by (simp add: less_ceiling_iff pos_less_divide_eq)
     (metis of_int_less_iff of_int_mult of_int_numeral of_int_of_nat_eq)

lemma ceiling_one_over: "\<lceil>(1::real) / 10\<rceil> = 1" "\<lceil>(1::real) / 30\<rceil> = 1"
  by (simp_all add: ceiling_eq_iff)

lemma parse_two: "orOne (parseInt (str ''2'') 0) = Num 2" "orOne (parseInt (str ''2'') 10) = Num 2"
  and parse_one: "orOne (parseInt (str ''1'') 10) = Num 1"
  by (simp_all add: parseInt_def orOne_def str_def isWhiteSpace_def isRadixDigit_def
      digitValue_def isDecimalDigit_def mathInt_def hasHexPrefix_def roundToDouble_def
      roundNat_def Let_def)

text \<open>
  C10, as the claim states it: every page of at least 1 is parsed as itself. The page
  9007199254740993, one more than \<open>2^53\<close>, is parsed as 9007199254740992, the nearest
  double.
\<close>

theorem page_beyond_2_53_is_rounded:
  "orOne (parseInt (toString (Some (decimal 9007199254740993))) 0) = Num 9007199254740992
   \<and> orOne (parseInt (decimal 9007199254740993) 10) = Num 9007199254740992"
  by (simp add: toString_Some parseInt_decimal round_example orOne_def)

text \<open>
  C10, amended. A page parameter that is missing, is \<open>0\<close>, or does not start (after white
  space and a sign) with a decimal digit is read as page 1 and answered with the first
  page: in app.js, for a valid type, status 200 with the ten most recent live rows; in
  the content-fingerprint variant, where the page is a segment of the path and cannot be
  missing, the thirty most recent entries of the owner, status 404 when the owner has
  none, status 500 when a stored entry does not parse. A page from 1 to \<open>2^53\<close>, written
  in decimal, is parsed as itself by both servers.
\<close>

theorem page_defaults_to_one:
  "(let live = liveRows (ensureSha256 H uid) ty (getTTLTimestamp tza now) tbl;
        first = Fetch200
                  \<lparr>fb_type = ty, fb_userId = ensureSha256 H uid,
                   fb_objects = map summary (take 10 (orderByCreatedAtDesc live)),
                   fb_pagination =
                     \<lparr>pg_page = 1, pg_limit = 10, pg_totalObjects = length live,
                      pg_totalPages = \<lceil>real (length live) / 10\<rceil>,
                      pg_hasNextPage = (1 < \<lceil>real (length live) / 10\<rceil>),
                      pg_hasPrevPage = False\<rparr>\<rparr>;
        mine = filter (\<lambda>r. userId_fp r = H uid) ftbl;
        slice = take 30 (sort_key (\<lambda>r. - created_at_fp r) mine);
        first_fp =
          (if slice = [] then FetchFp404
           else case parseAll J (map entry slice) of
                  None \<Rightarrow> FetchFp500
                | Some vs \<Rightarrow>
                    FetchFp200
                      \<lparr>fp_page = 1, fp_limit = 30,
                       fp_totalPages = \<lceil>real (length mine) / 30\<rceil>,
                       fp_totalCount = length mine,
                       fp_hasNextPage = (30 < int (length mine)),
                       fp_hasPreviousPage = False, fp_data = vs\<rparr>)
    in orOne (parseInt (toString None) 0) = Num 1
     \<and> orOne (parseInt (toString (Some (decimal 0))) 0) = Num 1
     \<and> orOne (parseInt (decimal 0) 10) = Num 1
     \<and> ((\<forall>c cs. snd (stripSign (dropWhile isWhiteSpace s)) = c # cs \<longrightarrow> \<not> isDecimalDigit c) \<longrightarrow>
           orOne (parseInt (toString (Some s)) 0) = Num 1 \<and> orOne (parseInt s 10) = Num 1
           \<and> fetch_fp H J uid s ftbl = first_fp
           \<and> (validateType ty = Inr ty \<and> list_all datesFormat tbl \<longrightarrow>
                fetch H tza now ty uid (Some s) tbl = first))
     \<and> (validateType ty = Inr ty \<and> list_all datesFormat tbl \<longrightarrow>
           fetch H tza now ty uid None tbl = first
           \<and> fetch H tza now ty uid (Some (decimal 0)) tbl = first)
     \<and> fetch_fp H J uid (decimal 0) ftbl = first_fp
     \<and> (1 \<le> n \<and> n \<le> 2 ^ 53 \<longrightarrow>
           orOne (parseInt (toString (Some (decimal n))) 0) = Num (int n)
           \<and> orOne (parseInt (decimal n) 10) = Num (int n)))"
proof -
  have z: "orOne (parseInt (decimal 0) 0) = Num 1" "orOne (parseInt (decimal 0) 10) = Num 1"
    using orOne_decimal [of 0] by simp_all
  have small: "\<bar>((1::int) - 1) * 10\<bar> \<le> 2 ^ 53" "\<bar>((1::int) - 1) * 30\<bar> + 30 \<le> 2 ^ 53"
    by simp_all
  have f1: "fetch H tza now ty uid q tbl =
      Fetch200
        \<lparr>fb_type = ty, fb_userId = ensureSha256 H uid,
         fb_objects = map summary (take 10 (orderByCreatedAtDesc
           (liveRows (ensureSha256 H uid) ty (getTTLTimestamp tza now) tbl))),
         fb_pagination =
           \<lparr>pg_page = 1, pg_limit = 10,
            pg_totalObjects = length (liveRows (ensureSha256 H uid) ty (getTTLTimestamp tza now) tbl),
            pg_totalPages = \<lceil>real (length (liveRows (ensureSha256 H uid) ty (getTTLTimestamp tza now) tbl)) / 10\<rceil>,
            pg_hasNextPage = (1 < \<lceil>real (length (liveRows (ensureSha256 H uid) ty (getTTLTimestamp tza now) tbl)) / 10\<rceil>),
            pg_hasPrevPage = False\<rparr>\<rparr>"
    if "orOne (parseInt (toString q) 0) = Num 1" "validateType ty = Inr ty"
      "list_all datesFormat tbl" for q
    using fetch_page [OF that(2) that(3) that(1) small(1), of H tza now uid] by simp
  have f2: "fetch_fp H J uid t ftbl =
      (if take 30 (sort_key (\<lambda>r. - created_at_fp r) (filter (\<lambda>r. userId_fp r = H uid) ftbl)) = []
       then FetchFp404
       else case parseAll J (map entry
              (take 30 (sort_key (\<lambda>r. - created_at_fp r) (filter (\<lambda>r. userId_fp r = H uid) ftbl)))) of
              None \<Rightarrow> FetchFp500
            | Some vs \<Rightarrow>
                FetchFp200
                  \<lparr>fp_page = 1, fp_limit = 30,
                   fp_totalPages = \<lceil>real (length (filter (\<lambda>r. userId_fp r = H uid) ftbl)) / 30\<rceil>,
                   fp_totalCount = length (filter (\<lambda>r. userId_fp r = H uid) ftbl),
                   fp_hasNextPage = (30 < int (length (filter (\<lambda>r. userId_fp r = H uid) ftbl))),
                   fp_hasPreviousPage = False, fp_data = vs\<rparr>)"
    if "orOne (parseInt t 10) = Num 1" for t
    using fetch_fp_page [OF that small(2), of H J uid ftbl]
    by (auto simp: Let_def split: option.splits)
  have big: "orOne (parseInt (decimal n) 0) = Num (int n) \<and> orOne (parseInt (decimal n) 10) = Num (int n)"
    if "1 \<le> n \<and> n \<le> 2 ^ 53"
    using that orOne_decimal [of n] by simp
  show ?thesis
    unfolding Let_def
    by (intro conjI impI)
       (simp_all add: orOne_undefined toString_Some z orOne_not_numeric f1 f2 big)
qed

theorem page_defaults_to_one_witness:
  "fetch (\<lambda>s. s) utc 1000 (str ''note'') (str ''alice'') None
      [\<lparr>id_pk = str ''id1'', objectId = str ''k1'', userId = str ''alice'',
        type = str ''note'', data = [0x68], created_at = 900\<rparr>]
     = Fetch200
         \<lparr>fb_type = str ''note'', fb_userId = str ''alice'',
          fb_objects = [\<lparr>os_objectId = str ''k1'', os_size = 1, os_createdAt = 900,
             os_expiresAt = 2160000900\<rparr>],
          fb_pagination = \<lparr>pg_page = 1, pg_limit = 10, pg_totalObjects = 1, pg_totalPages = 1,
             pg_hasNextPage = False, pg_hasPrevPage = False\<rparr>\<rparr>
   \<and> fetch_fp (\<lambda>s. s) Some (str ''alice'') (str ''abc'')
        [\<lparr>objectId_fp = str ''o1'', userId_fp = str ''alice'', entry = str ''{}'',
          created_at_fp = 1000\<rparr>]
     = FetchFp200
         \<lparr>fp_page = 1, fp_limit = 30, fp_totalPages = 1, fp_totalCount = 1,
          fp_hasNextPage = False, fp_hasPreviousPage = False, fp_data = [str ''{}'']\<rparr>
   \<and> orOne (parseInt (str ''abc'') 0) = Num 1
   \<and> orOne (parseInt (decimal 7) 0) = Num 7 \<and> orOne (parseInt (decimal 7) 10) = Num 7"
  using page_defaults_to_one [of "\<lambda>s. s" "str ''alice''" "str ''note''" utc 1000
      "[\<lparr>id_pk = str ''id1'', objectId = str ''k1'', userId = str ''alice'',
         type = str ''note'', data = [0x68], created_at = 900\<rparr>]"
      "[\<lparr>objectId_fp = str ''o1'', userId_fp = str ''alice'', entry = str ''{}'',
         created_at_fp = 1000\<rparr>]" Some "str ''abc''" 7]
  by (simp add: validateType_def wordChar_def str_def liveRows_def ensureSha256_def
      getTTLTimestamp_def utc_def msPerDay_def toString_Some datesFormat_def validTime_def
      isWhiteSpace_def isDecimalDigit_def summary_def
      orderByCreatedAtDesc_def ceiling_one_over Let_def)

section \<open>Pages of a listing\<close>

text \<open>
  C5, as the claim states it: a page beyond the last is answered with an empty sequence
  and not with an error. The content-fingerprint variant answers it with status 404.
\<close>

theorem fetch_fp_beyond_last_page_is_404:
  "fetch_fp (\<lambda>s. s) Some (str ''alice'') (str ''2'')
     [\<lparr>objectId_fp = str ''o1'', userId_fp = str ''alice'', entry = str ''{}'',
       created_at_fp = 1000\<rparr>] = FetchFp404"
  by (simp add: fetch_fp_def hashUserId_def parseInt_def orOne_def str_def isWhiteSpace_def
      isRadixDigit_def digitValue_def isDecimalDigit_def mathInt_def limitOffset_def Let_def
      roundToDouble_def roundNat_def sqlInteger_def)

text \<open>
  C5, amended. For a page \<open>p\<close> whose offset is at most \<open>2^53\<close> in magnitude: in app.js
  the listing of a valid type answers status 200 with the live rows from offset
  \<open>(p - 1) * 10\<close> on, at most ten, most recent first, with \<open>totalPages\<close> the ceiling of
  the count over ten and \<open>hasNextPage\<close> the test \<open>p < totalPages\<close>; when the offset
  reaches the count the objects are empty and \<open>hasNextPage\<close> is false. The
  content-fingerprint variant takes the owner's entries from offset \<open>(p - 1) * 30\<close> on,
  at most thirty: when there are none, as when the offset reaches the count, it answers
  404; otherwise 200 with the entries, \<open>totalPages\<close> the ceiling of the count over thirty
  and \<open>hasNextPage\<close> the test \<open>offset + 30 < totalCount\<close>, or 500 when a stored entry
  does not parse.
\<close>

theorem fetch_pages:
  "(validateType ty = Inr ty \<and> list_all datesFormat tbl
      \<and> orOne (parseInt (toString q) 0) = Num p \<and> \<bar>(p - 1) * 10\<bar> \<le> 2 ^ 53 \<longrightarrow>
     (let live = liveRows (ensureSha256 H uid) ty (getTTLTimestamp tza now) tbl;
          objs = take 10 (drop (nat ((p - 1) * 10)) (orderByCreatedAtDesc live))
      in fetch H tza now ty uid q tbl =
           Fetch200
             \<lparr>fb_type = ty, fb_userId = ensureSha256 H uid, fb_objects = map summary objs,
              fb_pagination =
                \<lparr>pg_page = p, pg_limit = 10, pg_totalObjects = length live,
                 pg_totalPages = \<lceil>real (length live) / 10\<rceil>,
                 pg_hasNextPage = (p < \<lceil>real (length live) / 10\<rceil>),
                 pg_hasPrevPage = (1 < p)\<rparr>\<rparr>
         \<and> (int (length live) \<le> (p - 1) * 10 \<longrightarrow>
               objs = [] \<and> \<not> p < \<lceil>real (length live) / 10\<rceil>)))
   \<and> (orOne (parseInt s 10) = Num p' \<and> \<bar>(p' - 1) * 30\<bar> + 30 \<le> 2 ^ 53 \<longrightarrow>
       (let mine = filter (\<lambda>r. userId_fp r = H uid) ftbl;
            slice = take 30 (drop (nat ((p' - 1) * 30)) (sort_key (\<lambda>r. - created_at_fp r) mine))
        in fetch_fp H J uid s ftbl =
             (if slice = [] then FetchFp404
              else case parseAll J (map entry slice) of
                     None \<Rightarrow> FetchFp500
                   | Some vs \<Rightarrow>
                       FetchFp200
                         \<lparr>fp_page = p', fp_limit = 30,
                          fp_totalPages = \<lceil>real (length mine) / 30\<rceil>,
                          fp_totalCount = length mine,
                          fp_hasNextPage = ((p' - 1) * 30 + 30 < int (length mine)),
                          fp_hasPreviousPage = (1 < p'), fp_data = vs\<rparr>)
           \<and> (int (length mine) \<le> (p' - 1) * 30 \<longrightarrow> slice = [])))"
proof (intro conjI impI)
  assume h: "validateType ty = Inr ty \<and> list_all datesFormat tbl
      \<and> orOne (parseInt (toString q) 0) = Num p \<and> \<bar>(p - 1) * 10\<bar> \<le> 2 ^ 53"
  have "int n \<le> (p - 1) * 10 \<Longrightarrow> \<not> p < \<lceil>real n / 10\<rceil>" for n :: nat
    by (simp add: ceiling_less_iff_page)
  then show "let live = liveRows (ensureSha256 H uid) ty (getTTLTimestamp tza now) tbl;
          objs = take 10 (drop (nat ((p - 1) * 10)) (orderByCreatedAtDesc live))
      in fetch H tza now ty uid q tbl =
           Fetch200
             \<lparr>fb_type = ty, fb_userId = ensureSha256 H uid, fb_objects = map summary objs,
              fb_pagination =
                \<lparr>pg_page = p, pg_limit = 10, pg_totalObjects = length live,
                 pg_totalPages = \<lceil>real (length live) / 10\<rceil>,
                 pg_hasNextPage = (p < \<lceil>real (length live) / 10\<rceil>),
                 pg_hasPrevPage = (1 < p)\<rparr>\<rparr>
         \<and> (int (length live) \<le> (p - 1) * 10 \<longrightarrow>
               objs = [] \<and> \<not> p < \<lceil>real (length live) / 10\<rceil>)"
    using h by (simp add: Let_def fetch_page orderByCreatedAtDesc_def)
next
  assume h: "orOne (parseInt s 10) = Num p' \<and> \<bar>(p' - 1) * 30\<bar> + 30 \<le> 2 ^ 53"
  show "let mine = filter (\<lambda>r. userId_fp r = H uid) ftbl;
            slice = take 30 (drop (nat ((p' - 1) * 30)) (sort_key (\<lambda>r. - created_at_fp r) mine))
        in fetch_fp H J uid s ftbl =
             (if slice = [] then FetchFp404
              else case parseAll J (map entry slice) of
                     None \<Rightarrow> FetchFp500
                   | Some vs \<Rightarrow>
                       FetchFp200
                         \<lparr>fp_page = p', fp_limit = 30,
                          fp_totalPages = \<lceil>real (length mine) / 30\<rceil>,
                          fp_totalCount = length mine,
                          fp_hasNextPage = ((p' - 1) * 30 + 30 < int (length mine)),
                          fp_hasPreviousPage = (1 < p'), fp_data = vs\<rparr>)
           \<and> (int (length mine) \<le> (p' - 1) * 30 \<longrightarrow> slice = [])"
    using h fetch_fp_page [of s p' H J uid ftbl] by (simp add: Let_def)
qed

theorem fetch_pages_witness:
  "fetch (\<lambda>s. s) utc 1000 (str ''note'') (str ''alice'') (Some (str ''2''))
      [\<lparr>id_pk = str ''id1'', objectId = str ''k1'', userId = str ''alice'',
        type = str ''note'', data = [0x68], created_at = 900\<rparr>]
     = Fetch200
         \<lparr>fb_type = str ''note'', fb_userId = str ''alice'', fb_objects = [],
          fb_pagination = \<lparr>pg_page = 2, pg_limit = 10, pg_totalObjects = 1, pg_totalPages = 1,
             pg_hasNextPage = False, pg_hasPrevPage = True\<rparr>\<rparr>
   \<and> fetch_fp (\<lambda>s. s) Some (str ''alice'') (str ''2'')
        [\<lparr>objectId_fp = str ''o1'', userId_fp = str ''alice'', entry = str ''{}'',
          created_at_fp = 1000\<rparr>] = FetchFp404
   \<and> fetch_fp (\<lambda>s. s) Some (str ''alice'') (str ''1'')
        [\<lparr>objectId_fp = str ''o1'', userId_fp = str ''alice'', entry = str ''{}'',
          created_at_fp = 1000\<rparr>]
     = FetchFp200
         \<lparr>fp_page = 1, fp_limit = 30, fp_totalPages = 1, fp_totalCount = 1,
          fp_hasNextPage = False, fp_hasPreviousPage = False, fp_data = [str ''{}'']\<rparr>"
  using
    fetch_pages [of "str ''note''"
      "[\<lparr>id_pk = str ''id1'', objectId = str ''k1'', userId = str ''alice'',
         type = str ''note'', data = [0x68], created_at = 900\<rparr>]"
      "Some (str ''2'')" 2 "\<lambda>s. s" "str ''alice''" utc 1000 "str ''2''" 2
      "[\<lparr>objectId_fp = str ''o1'', userId_fp = str ''alice'', entry = str ''{}'',
         created_at_fp = 1000\<rparr>]" Some]
    fetch_pages [of "str ''note''"
      "[\<lparr>id_pk = str ''id1'', objectId = str ''k1'', userId = str ''alice'',
         type = str ''note'', data = [0x68], created_at = 900\<rparr>]"
      "Some (str ''2'')" 2 "\<lambda>s. s" "str ''alice''" utc 1000 "str ''1''" 1
      "[\<lparr>objectId_fp = str ''o1'', userId_fp = str ''alice'', entry = str ''{}'',
         created_at_fp = 1000\<rparr>]" Some]
  by (simp add: validateType_def wordChar_def str_def liveRows_def ensureSha256_def
      getTTLTimestamp_def utc_def msPerDay_def toString_Some datesFormat_def validTime_def
      parse_two [unfolded str_def, simplified] parse_one [unfolded str_def, simplified]
      orderByCreatedAtDesc_def ceiling_one_over Let_def)

section \<open>Expiry\<close>

text \<open>
  On a host whose offset from UTC never changes the read paths hide exactly the rows
  older than 25 days of 86 400 000 ms.
\<close>

lemma find_None_iff_list_all: "(find P xs = None) = list_all (\<lambda>x. \<not> P x) xs"
  by (induction xs) auto

lemma expired_rows_hidden_on_fixed_offset_host:
  assumes "\<And>t b. tza t b = c"
  shows "list_all (\<lambda>r. objectId r \<noteq> oid \<or> created_at r < now - 25 * msPerDay) tbl \<Longrightarrow>
           getObject tza now oid tbl = Status404"
    and "liveRows uid ty (getTTLTimestamp tza now) tbl
           = filter (\<lambda>r. userId r = uid \<and> type r = ty \<and> now - 25 * msPerDay \<le> created_at r) tbl"
proof -
  have cut: "getTTLTimestamp tza now = now - 25 * msPerDay"
    using assms by (rule getTTLTimestamp_fixed_offset)
  show "liveRows uid ty (getTTLTimestamp tza now) tbl
          = filter (\<lambda>r. userId r = uid \<and> type r = ty \<and> now - 25 * msPerDay \<le> created_at r) tbl"
    by (simp add: liveRows_def cut)
  assume "list_all (\<lambda>r. objectId r \<noteq> oid \<or> created_at r < now - 25 * msPerDay) tbl"
  then have "find (\<lambda>r. objectId r = oid \<and> created_at r \<ge> now - 25 * msPerDay) tbl = None"
    by (simp add: find_None_iff_list_all list_all_iff not_le)
  then show "getObject tza now oid tbl = Status404"
    by (simp add: getObject_def cut)
qed

text \<open>
  C3. An entry older than 25 days by one millisecond is meant to be hidden from both
  read paths. On a host in the time zone Europe/London at 2024-11-03T12:00:00Z the cutoff
  of \<open>getTTLTimestamp\<close> lies an hour before \<open>now\<close> less 25 days, because the clocks went
  back in between: such an entry is served by \<open>GET /object\<close> and listed and counted by
  \<open>GET /fetch\<close>, an hour past the \<open>expiresAt\<close> the listing reports for it.
\<close>

theorem expired_row_visible_after_clock_change:
  "getObject europe_london_2024 1730635200000 (str ''k1'')
     [\<lparr>id_pk = str ''id1'', objectId = str ''k1'', userId = replicate 64 0x61,
       type = str ''note'', data = [0x68, 0x69],
       created_at = 1730635200000 - 25 * msPerDay - 1\<rparr>]
   = Status200 [0x68, 0x69]
   \<and> fetch H europe_london_2024 1730635200000 (str ''note'') (replicate 64 0x61) None
     [\<lparr>id_pk = str ''id1'', objectId = str ''k1'', userId = replicate 64 0x61,
       type = str ''note'', data = [0x68, 0x69],
       created_at = 1730635200000 - 25 * msPerDay - 1\<rparr>]
   = Fetch200
      \<lparr>fb_type = str ''note'', fb_userId = replicate 64 0x61,
       fb_objects = [\<lparr>os_objectId = str ''k1'', os_size = 2,
          os_createdAt = 1730635200000 - 25 * msPerDay - 1,
          os_expiresAt = 1730635200000 - 1\<rparr>],
       fb_pagination = \<lparr>pg_page = 1, pg_limit = 10, pg_totalObjects = 1, pg_totalPages = 1,
          pg_hasNextPage = False, pg_hasPrevPage = False\<rparr>\<rparr>"
  by (simp add: getObject_def getTTLTimestamp_def europe_london_2024_def msPerDay_def str_def
      fetch_def validateType_def wordChar_def ensureSha256_def liveRows_def
      orderByCreatedAtDesc_def limitOffset_def summary_def orOne_undefined
      roundToDouble_def roundNat_def sqlInteger_def datesFormat_def validTime_def
      ceiling_one_over Let_def)

end
